theory Spec2Isabelle
  imports Main "HOL-Library.Word"
begin

section \<open>The logger facade of dubbo-go (common/logger/logger.go)\<close>

text \<open>
  The package keeps one process-wide variable \<^verbatim>\<open>logger\<close>, builds a zap logger whose core
  is a tee of four cores (info file, warn file, error file, standard output) and hands
  the installed logger to getty. The embedding follows the Go source function by
  function. A panic of the Go runtime is the left injection of a sum, a \<^verbatim>\<open>nil\<close> pointer
  or \<^verbatim>\<open>nil\<close> interface is \<open>None\<close>, and what the program takes from outside its own
  source (the file system, the YAML decoder, zap's \<^verbatim>\<open>Config.Build\<close>, zapcore's level
  parser, the path separator of the operating system) is a field of the record \<open>env\<close>.
\<close>

subsection \<open>Levels\<close>

text \<open>\<^verbatim>\<open>zapcore.Level\<close> is an \<^verbatim>\<open>int8\<close>: arithmetic wraps around, comparisons are signed.\<close>

type_synonym Level = "8 word"

definition DebugLevel :: Level where "DebugLevel = - 1"
definition InfoLevel :: Level where "InfoLevel = 0"
definition WarnLevel :: Level where "WarnLevel = 1"
definition ErrorLevel :: Level where "ErrorLevel = 2"
definition DPanicLevel :: Level where "DPanicLevel = 3"
definition PanicLevel :: Level where "PanicLevel = 4"
definition FatalLevel :: Level where "FatalLevel = 5"

datatype panic = NilPointerDereference | BackendPanic

text \<open>
  \<^verbatim>\<open>zap.AtomicLevel\<close> wraps a pointer to an atomic cell; its zero value holds \<^verbatim>\<open>nil\<close>. The
  cells live in the store \<open>cells\<close> of the program state, so that the logger and the
  enablers of its cores share the level they were built with.
\<close>

type_synonym addr = nat
type_synonym AtomicLevel = "addr option"

definition AtomicLevel_Level :: "(addr \<Rightarrow> Level) \<Rightarrow> AtomicLevel \<Rightarrow> panic + Level" where
  "AtomicLevel_Level cs lvl =
     (case lvl of None \<Rightarrow> Inl NilPointerDereference | Some a \<Rightarrow> Inr (cs a))"

subsection \<open>Configuration\<close>

record EncoderConfig =
  TimeKey :: string
  LevelKey :: string
  NameKey :: string
  CallerKey :: string
  MessageKey :: string
  StacktraceKey :: string
  EncodeLevel :: string
  EncodeTime :: string
  EncodeDuration :: string
  EncodeCaller :: string

text \<open>The fields of \<^verbatim>\<open>zap.Config\<close> that the source sets; the encoder functions by name.\<close>

record zap_Config =
  Level :: AtomicLevel
  Development :: bool
  Encoding :: string
  EncoderConfig :: EncoderConfig
  OutputPaths :: "string list"
  ErrorOutputPaths :: "string list"

record RollingFileConfig =
  LogFilePath :: string
  ErrorFilename :: string
  WarnFilename :: string
  InfoFilename :: string
  MaxSize :: int
  MaxBackups :: int
  MaxAge :: int
  Compress :: bool

record ConfigWrapper =
  LogConfig :: zap_Config
  Rolling :: RollingFileConfig

text \<open>The zero values of the Go structs, as \<^verbatim>\<open>zap.Config{}\<close> and \<^verbatim>\<open>RollingFileConfig{}\<close>.\<close>

definition zero_EncoderConfig :: EncoderConfig where
  "zero_EncoderConfig =
     \<lparr>TimeKey = [], LevelKey = [], NameKey = [], CallerKey = [], MessageKey = [],
      StacktraceKey = [], EncodeLevel = [], EncodeTime = [], EncodeDuration = [],
      EncodeCaller = []\<rparr>"

definition zero_zap_Config :: zap_Config where
  "zero_zap_Config =
     \<lparr>Level = None, Development = False, Encoding = [], EncoderConfig = zero_EncoderConfig,
      OutputPaths = [], ErrorOutputPaths = []\<rparr>"

definition zero_RollingFileConfig :: RollingFileConfig where
  "zero_RollingFileConfig =
     \<lparr>LogFilePath = [], ErrorFilename = [], WarnFilename = [], InfoFilename = [],
      MaxSize = 0, MaxBackups = 0, MaxAge = 0, Compress = False\<rparr>"

subsection \<open>Sinks, cores and loggers\<close>

record lumberjack_Logger =
  lj_Filename :: string
  lj_MaxSize :: int
  lj_MaxBackups :: int
  lj_MaxAge :: int
  lj_Compress :: bool

datatype WriteSyncer = Lumberjack lumberjack_Logger | Stdout

datatype Encoder = JSONEncoder EncoderConfig

text \<open>
  A core is \<^verbatim>\<open>zapcore.NewCore(enc, ws, enab)\<close>. The enabler is a closure that reads the
  level cell when a record arrives, so it takes the cells and the record's level.
\<close>

record Core =
  encoder :: Encoder
  syncer :: WriteSyncer
  enabler :: "(addr \<Rightarrow> Level) \<Rightarrow> Level \<Rightarrow> panic + bool"

text \<open>
  The zap logger after the options of the source: \<^verbatim>\<open>WrapCore\<close> has replaced its core by
  the tee of \<open>zapCores\<close>, \<^verbatim>\<open>AddCallerSkip(1)\<close> has set the skip.
\<close>

record zap_Logger =
  tee :: "Core list"
  callerSkip :: int

text \<open>
  The dynamic types a \<^verbatim>\<open>Logger\<close> interface value can have: a pointer to a \<^verbatim>\<open>DubboLogger\<close>
  (the embedded \<^verbatim>\<open>Logger\<close>, which may be \<^verbatim>\<open>nil\<close>, and \<^verbatim>\<open>dynamicLevel\<close>), zap's sugared logger,
  and implementations from outside the package: one with the methods of \<^verbatim>\<open>Logger\<close> only,
  and one that also has \<^verbatim>\<open>SetLoggerLevel\<close>, whose effect on the level cells (or its panic,
  \<open>None\<close>) it brings along.
\<close>

datatype Logger =
    DubboLogger "Logger option" AtomicLevel
  | SugaredLogger zap_Logger
  | Backend nat
  | OpsBackend nat "string \<Rightarrow> (addr \<Rightarrow> Level) \<Rightarrow> (addr \<Rightarrow> Level) option"

text \<open>
  The package variable \<^verbatim>\<open>logger\<close>, getty's logger slot, and the store of level cells with
  the next free address.
\<close>

record state =
  logger :: "Logger option"
  getty_logger :: "Logger option"
  cells :: "addr \<Rightarrow> Level"
  next_cell :: addr

text \<open>What the program takes from outside its own source.\<close>

record env =
  Separator :: char
    \<comment> \<open>\<^verbatim>\<open>filepath.Separator\<close>\<close>
  ReadFile :: "string \<Rightarrow> string + string"
    \<comment> \<open>\<^verbatim>\<open>ioutil.ReadFile\<close>: the text of the error, or the content\<close>
  Unmarshal :: "string \<Rightarrow> ConfigWrapper \<Rightarrow> state \<Rightarrow> string option \<times> ConfigWrapper \<times> state"
    \<comment> \<open>\<^verbatim>\<open>yaml.Unmarshal(in, out)\<close>: the error, \<open>out\<close> as filled, the state with the cells allocated\<close>
  BuildError :: "zap_Config \<Rightarrow> string option"
    \<comment> \<open>the error \<^verbatim>\<open>Config.Build\<close> returns for a configuration, \<open>None\<close> when it builds\<close>
  Level_Set :: "string \<Rightarrow> Level option"
    \<comment> \<open>\<^verbatim>\<open>(*zapcore.Level).Set\<close>: the level parsed, \<open>None\<close> when it returns an error\<close>

subsection \<open>InitLoggerWithRolling\<close>

definition NewAtomicLevelAt :: "Level \<Rightarrow> state \<Rightarrow> AtomicLevel \<times> state" where
  "NewAtomicLevelAt l st =
     (Some (next_cell st),
      st\<lparr>cells := (cells st)(next_cell st := l), next_cell := Suc (next_cell st)\<rparr>)"

text \<open>Lines 123 to 147: the configuration used, the default one when \<^verbatim>\<open>conf == nil\<close>.\<close>

definition zapLoggerConfig :: "zap_Config option \<Rightarrow> state \<Rightarrow> zap_Config \<times> state" where
  "zapLoggerConfig conf st =
     (case conf of
        None \<Rightarrow>
          (let zapLoggerEncoderConfig =
                 \<lparr>TimeKey = ''time'', LevelKey = ''level'', NameKey = ''logger'',
                  CallerKey = ''caller'', MessageKey = ''message'',
                  StacktraceKey = ''stacktrace'', EncodeLevel = ''CapitalLevelEncoder'',
                  EncodeTime = ''ISO8601TimeEncoder'',
                  EncodeDuration = ''SecondsDurationEncoder'',
                  EncodeCaller = ''ShortCallerEncoder''\<rparr>;
               (lvl, st') = NewAtomicLevelAt DebugLevel st
           in (\<lparr>Level = lvl, Development = False, Encoding = ''console'',
                EncoderConfig = zapLoggerEncoderConfig, OutputPaths = [''stderr''],
                ErrorOutputPaths = [''stderr'']\<rparr>, st'))
      | Some c \<Rightarrow> (c, st))"

text \<open>Lines 149 to 164: the rolling configuration used.\<close>

definition lumberjackRolling :: "RollingFileConfig option \<Rightarrow> RollingFileConfig" where
  "lumberjackRolling rolling =
     (case rolling of
        None \<Rightarrow>
          \<lparr>LogFilePath = ''./logs'', ErrorFilename = ''dubbo-error.log'',
           WarnFilename = ''dubbo-warn.log'', InfoFilename = ''dubbo-info.log'',
           MaxSize = 30, MaxBackups = 1, MaxAge = 3, Compress = False\<rparr>
      | Some r \<Rightarrow> r)"

definition initLumberjackLogger :: "env \<Rightarrow> string \<Rightarrow> RollingFileConfig \<Rightarrow> lumberjack_Logger" where
  "initLumberjackLogger e filename fileConfig =
     \<lparr>lj_Filename = LogFilePath fileConfig @ [Separator e] @ filename,
      lj_MaxSize = MaxSize fileConfig,
      lj_MaxBackups = MaxBackups fileConfig,
      lj_MaxAge = MaxAge fileConfig,
      lj_Compress = Compress fileConfig\<rparr>"

text \<open>
  The four enablers, lines 169 to 183. \<^verbatim>\<open>&&\<close> evaluates its right operand only when the
  left one holds, so the level cell is read only then; \<^verbatim>\<open>x > -1\<close> is the signed
  comparison \<open>- 1 <s x\<close> on the wrapped difference.
\<close>

definition infoLevel :: "zap_Config \<Rightarrow> (addr \<Rightarrow> Level) \<Rightarrow> Level \<Rightarrow> panic + bool" where
  "infoLevel cfg cs level =
     (if level = InfoLevel
      then (case AtomicLevel_Level cs (Level cfg) of
              Inl p \<Rightarrow> Inl p
            | Inr l \<Rightarrow> Inr (- 1 <s level - InfoLevel - l))
      else Inr False)"

definition warnLevel :: "zap_Config \<Rightarrow> (addr \<Rightarrow> Level) \<Rightarrow> Level \<Rightarrow> panic + bool" where
  "warnLevel cfg cs level =
     (if level = WarnLevel
      then (case AtomicLevel_Level cs (Level cfg) of
              Inl p \<Rightarrow> Inl p
            | Inr l \<Rightarrow> Inr (- 1 <s WarnLevel - l))
      else Inr False)"

definition errorLevel :: "zap_Config \<Rightarrow> (addr \<Rightarrow> Level) \<Rightarrow> Level \<Rightarrow> panic + bool" where
  "errorLevel cfg cs level =
     (if WarnLevel <s level
      then (case AtomicLevel_Level cs (Level cfg) of
              Inl p \<Rightarrow> Inl p
            | Inr l \<Rightarrow> Inr (- 1 <s WarnLevel - l))
      else Inr False)"

definition consoleLevel :: "zap_Config \<Rightarrow> (addr \<Rightarrow> Level) \<Rightarrow> Level \<Rightarrow> panic + bool" where
  "consoleLevel cfg cs level =
     (case AtomicLevel_Level cs (Level cfg) of
        Inl p \<Rightarrow> Inl p
      | Inr l \<Rightarrow> Inr (- 1 <s level - l))"

text \<open>Lines 166 to 190: one JSON encoder for the four cores.\<close>

definition zapCores :: "env \<Rightarrow> zap_Config \<Rightarrow> RollingFileConfig \<Rightarrow> Core list" where
  "zapCores e cfg rolling =
     (let logEncoder = JSONEncoder (EncoderConfig cfg);
          infoLogger = initLumberjackLogger e (InfoFilename rolling) rolling;
          warnLogger = initLumberjackLogger e (WarnFilename rolling) rolling;
          errorLogger = initLumberjackLogger e (ErrorFilename rolling) rolling
      in [\<lparr>encoder = logEncoder, syncer = Lumberjack infoLogger,
            enabler = infoLevel cfg\<rparr>,
          \<lparr>encoder = logEncoder, syncer = Lumberjack warnLogger,
            enabler = warnLevel cfg\<rparr>,
          \<lparr>encoder = logEncoder, syncer = Lumberjack errorLogger,
            enabler = errorLevel cfg\<rparr>,
          \<lparr>encoder = logEncoder, syncer = Stdout,
            enabler = consoleLevel cfg\<rparr>])"

text \<open>
  \<^verbatim>\<open>zapLoggerConfig.Build(zap.AddCallerSkip(1), zap.WrapCore(...))\<close>: the pair of results.
  With an error the logger returned is \<^verbatim>\<open>nil\<close>; otherwise the options have been applied.
\<close>

definition Build :: "env \<Rightarrow> zap_Config \<Rightarrow> Core list \<Rightarrow> zap_Logger option \<times> string option" where
  "Build e cfg cores =
     (case BuildError e cfg of
        Some err \<Rightarrow> (None, Some err)
      | None \<Rightarrow> (Some \<lparr>tee = cores, callerSkip = 1\<rparr>, None))"

text \<open>\<^verbatim>\<open>(*zap.Logger).Sugar\<close> copies the logger it is called on: it reads through its receiver.\<close>

definition Sugar :: "zap_Logger option \<Rightarrow> panic + Logger" where
  "Sugar zapLogger =
     (case zapLogger of None \<Rightarrow> Inl NilPointerDereference | Some l \<Rightarrow> Inr (SugaredLogger l))"

definition getty_SetLogger :: "Logger option \<Rightarrow> state \<Rightarrow> state" where
  "getty_SetLogger l st = st\<lparr>getty_logger := l\<rparr>"

definition InitLoggerWithRolling ::
  "env \<Rightarrow> zap_Config option \<Rightarrow> RollingFileConfig option \<Rightarrow> state \<Rightarrow> panic + state" where
  "InitLoggerWithRolling e conf rolling st =
     (let (cfg, st1) = zapLoggerConfig conf st;
          cores = zapCores e cfg (lumberjackRolling rolling);
          (zapLogger, _) = Build e cfg cores
      in case Sugar zapLogger of
           Inl p \<Rightarrow> Inl p
         | Inr sugared \<Rightarrow>
             (let st2 = st1\<lparr>logger := Some (DubboLogger (Some sugared) (Level cfg))\<rparr>
              in Inr (getty_SetLogger (logger st2) st2)))"

definition InitLogger :: "env \<Rightarrow> zap_Config option \<Rightarrow> state \<Rightarrow> panic + state" where
  "InitLogger e conf st = InitLoggerWithRolling e conf None st"

subsection \<open>InitLog\<close>

text \<open>
  \<^verbatim>\<open>path.Ext\<close> of the Go library: the suffix from the last dot of the last element of the
  path, empty when that element has no dot. The loop runs the index down from the end;
  \<open>Suc i\<close> here is the index \<open>i\<close> of the loop plus one.
\<close>

fun Ext_loop :: "string \<Rightarrow> nat \<Rightarrow> string" where
  "Ext_loop p 0 = []"
| "Ext_loop p (Suc i) =
     (if p ! i = CHR ''/'' then []
      else if p ! i = CHR ''.'' then drop i p
      else Ext_loop p i)"

definition Ext :: "string \<Rightarrow> string" where
  "Ext p = Ext_loop p (length p)"

text \<open>An error of \<^verbatim>\<open>pkg/errors\<close> is the message it carries; \<open>None\<close> is the \<^verbatim>\<open>nil\<close> error.\<close>

type_synonym error = string

definition default_then :: "env \<Rightarrow> error \<Rightarrow> state \<Rightarrow> panic + (error option \<times> state)" where
  "default_then e err st =
     (case InitLoggerWithRolling e None None st of
        Inl p \<Rightarrow> Inl p
      | Inr st' \<Rightarrow> Inr (Some err, st'))"

definition InitLog :: "env \<Rightarrow> string \<Rightarrow> state \<Rightarrow> panic + (error option \<times> state)" where
  "InitLog e logConfFile st =
     (if logConfFile = [] then
        default_then e ''log configure file name is nil'' st
      else if Ext logConfFile \<noteq> ''.yml'' then
        default_then e
          (''log configure file name{'' @ logConfFile @ ''} suffix must be .yml'') st
      else
        (case ReadFile e logConfFile of
           Inl err \<Rightarrow>
             default_then e
               (''ioutil.ReadFile(file:'' @ logConfFile @ '') = error:'' @ err) st
         | Inr confFileStream \<Rightarrow>
             (let logConfig0 = \<lparr>LogConfig = zero_zap_Config, Rolling = zero_RollingFileConfig\<rparr>;
                  (err, logConfig, st1) = Unmarshal e confFileStream logConfig0 st
              in case err of
                   Some msg \<Rightarrow>
                     default_then e
                       (''yaml.Unmarshal(file:'' @ logConfFile @ '') = error:'' @ msg) st1
                 | None \<Rightarrow>
                     (case InitLoggerWithRolling e (Some (LogConfig logConfig))
                             (Some (Rolling logConfig)) st1 of
                        Inl p \<Rightarrow> Inl p
                      | Inr st2 \<Rightarrow> Inr (None, st2)))))"

subsection \<open>SetLogger, GetLogger, SetLoggerLevel\<close>

definition SetLogger :: "Logger option \<Rightarrow> state \<Rightarrow> state" where
  "SetLogger log st = (let st1 = st\<lparr>logger := log\<rparr> in getty_SetLogger (logger st1) st1)"

definition GetLogger :: "state \<Rightarrow> Logger option \<times> state" where
  "GetLogger st = (logger st, st)"

definition AtomicLevel_SetLevel :: "AtomicLevel \<Rightarrow> Level \<Rightarrow> state \<Rightarrow> panic + state" where
  "AtomicLevel_SetLevel lvl l st =
     (case lvl of
        None \<Rightarrow> Inl NilPointerDereference
      | Some a \<Rightarrow> Inr (st\<lparr>cells := (cells st)(a := l)\<rparr>))"

text \<open>The method \<^verbatim>\<open>(*DubboLogger).SetLoggerLevel\<close>, on the logger's \<^verbatim>\<open>dynamicLevel\<close>.\<close>

definition DubboLogger_SetLoggerLevel ::
  "env \<Rightarrow> AtomicLevel \<Rightarrow> string \<Rightarrow> state \<Rightarrow> panic + state" where
  "DubboLogger_SetLoggerLevel e dynamicLevel level st =
     (case Level_Set e level of
        Some l \<Rightarrow> AtomicLevel_SetLevel dynamicLevel l st
      | None \<Rightarrow> Inr st)"

text \<open>The type assertion \<^verbatim>\<open>logger.(OpsLogger)\<close>: whether the dynamic type has the method.\<close>

fun OpsLogger :: "Logger option \<Rightarrow> bool" where
  "OpsLogger (Some (DubboLogger _ _)) = True"
| "OpsLogger (Some (OpsBackend _ _)) = True"
| "OpsLogger _ = False"

definition SetLoggerLevel :: "env \<Rightarrow> string \<Rightarrow> state \<Rightarrow> panic + (bool \<times> state)" where
  "SetLoggerLevel e level st =
     (case logger st of
        Some (DubboLogger _ dynamicLevel) \<Rightarrow>
          (case DubboLogger_SetLoggerLevel e dynamicLevel level st of
             Inl p \<Rightarrow> Inl p
           | Inr st' \<Rightarrow> Inr (True, st'))
      | Some (OpsBackend _ set_level) \<Rightarrow>
          (case set_level level (cells st) of
             None \<Rightarrow> Inl BackendPanic
           | Some cs \<Rightarrow> Inr (True, st\<lparr>cells := cs\<rparr>))
      | _ \<Rightarrow> Inr (False, st))"

subsection \<open>A log call\<close>

text \<open>
  A tee core offers a record to each of its cores, and a core writes it to its sink when
  its enabler holds for the record's level: the sinks that receive the record.
\<close>

fun tee_Write :: "(addr \<Rightarrow> Level) \<Rightarrow> Core list \<Rightarrow> Level \<Rightarrow> panic + WriteSyncer list" where
  "tee_Write cs [] level = Inr []"
| "tee_Write cs (c # rest) level =
     (case enabler c cs level of
        Inl p \<Rightarrow> Inl p
      | Inr b \<Rightarrow>
          (case tee_Write cs rest level of
             Inl p \<Rightarrow> Inl p
           | Inr ws \<Rightarrow> Inr (if b then syncer c # ws else ws)))"

text \<open>
  A call of a method of the \<^verbatim>\<open>Logger\<close> interface at a level, as \<^verbatim>\<open>logger.Info(...)\<close>: on the
  \<^verbatim>\<open>nil\<close> interface it panics, a \<^verbatim>\<open>DubboLogger\<close> passes it to its embedded \<^verbatim>\<open>Logger\<close>, the
  sugared logger gives the record to its tee. A backend from outside writes to no sink
  of this package.
\<close>

fun Logger_log :: "(addr \<Rightarrow> Level) \<Rightarrow> Logger option \<Rightarrow> Level \<Rightarrow> panic + WriteSyncer list" where
  "Logger_log cs None level = Inl NilPointerDereference"
| "Logger_log cs (Some (DubboLogger embedded _)) level = Logger_log cs embedded level"
| "Logger_log cs (Some (SugaredLogger l)) level = tee_Write cs (tee l) level"
| "Logger_log cs (Some (Backend _)) level = Inr []"
| "Logger_log cs (Some (OpsBackend _ _)) level = Inr []"

text \<open>The cores and the dynamic level of an installed logger.\<close>

fun Logger_cores :: "Logger option \<Rightarrow> Core list" where
  "Logger_cores (Some (DubboLogger embedded _)) = Logger_cores embedded"
| "Logger_cores (Some (SugaredLogger l)) = tee l"
| "Logger_cores _ = []"

fun dynamicLevel :: "Logger option \<Rightarrow> AtomicLevel" where
  "dynamicLevel (Some (DubboLogger _ lvl)) = lvl"
| "dynamicLevel _ = None"

text \<open>
  For a record at a level, what the enabler of each core of the installed logger answers,
  in the order of \<open>zapCores\<close>: info file, warn file, error file, console.
\<close>

definition sinks_Enabled :: "state \<Rightarrow> Level \<Rightarrow> (panic + bool) list" where
  "sinks_Enabled st level = map (\<lambda>c. enabler c (cells st) level) (Logger_cores (logger st))"

text \<open>The file sinks of a logger: the sinks of its cores other than standard output.\<close>

definition file_sinks :: "Logger option \<Rightarrow> WriteSyncer list" where
  "file_sinks l = filter (\<lambda>w. w \<noteq> Stdout) (map syncer (Logger_cores l))"

subsection \<open>A concrete environment and concrete states\<close>

text \<open>
  An environment to run the program in: a Unix separator; two files, \<^verbatim>\<open>./log.yml\<close> with a
  level and an encoding for \<^verbatim>\<open>logConfig\<close>, and the empty file \<^verbatim>\<open>./empty.yml\<close>; a decoder for
  these two documents (the empty document leaves the wrapper as it was); a \<^verbatim>\<open>Build\<close> that
  refuses an encoding other than \<^verbatim>\<open>console\<close> and \<^verbatim>\<open>json\<close> and a configuration without a
  level, as zap does; and the lower-case level names that zapcore parses.
\<close>

definition log_yml :: string where
  "log_yml = ''logConfig: {level: debug, encoding: console}''"

definition example_ReadFile :: "string \<Rightarrow> string + string" where
  "example_ReadFile name =
     (if name = ''./log.yml'' then Inr log_yml
      else if name = ''./empty.yml'' then Inr []
      else Inl (''open '' @ name @ '': no such file or directory''))"

definition example_Unmarshal ::
  "string \<Rightarrow> ConfigWrapper \<Rightarrow> state \<Rightarrow> string option \<times> ConfigWrapper \<times> state" where
  "example_Unmarshal doc out st =
     (if doc = log_yml then
        (let (lvl, st') = NewAtomicLevelAt DebugLevel st
         in (None, out\<lparr>LogConfig := (LogConfig out)\<lparr>Level := lvl, Encoding := ''console''\<rparr>\<rparr>, st'))
      else if doc = [] then (None, out, st)
      else (Some ''yaml: unmarshal errors'', out, st))"

definition example_BuildError :: "zap_Config \<Rightarrow> string option" where
  "example_BuildError cfg =
     (if Encoding cfg = [] then Some ''no encoder name specified''
      else if Encoding cfg \<noteq> ''console'' \<and> Encoding cfg \<noteq> ''json''
      then Some (''no encoder registered for name '' @ Encoding cfg)
      else if Level cfg = None then Some ''missing Level''
      else None)"

definition example_Level_Set :: "string \<Rightarrow> Level option" where
  "example_Level_Set =
     map_of [(''debug'', DebugLevel), (''info'', InfoLevel), ([], InfoLevel),
             (''warn'', WarnLevel), (''error'', ErrorLevel), (''dpanic'', DPanicLevel),
             (''panic'', PanicLevel), (''fatal'', FatalLevel)]"

definition example_env :: env where
  "example_env =
     \<lparr>Separator = CHR ''/'', ReadFile = example_ReadFile, Unmarshal = example_Unmarshal,
      BuildError = example_BuildError, Level_Set = example_Level_Set\<rparr>"

text \<open>The state of a process in which nothing has been installed yet.\<close>

definition init_state :: state where
  "init_state = \<lparr>logger = None, getty_logger = None, cells = (\<lambda>_. 0), next_cell = 0\<rparr>"

text \<open>The logger that \<open>InitLoggerWithRolling\<close> installs for a configuration, as a value.\<close>

definition built_Logger :: "env \<Rightarrow> zap_Config \<Rightarrow> RollingFileConfig \<Rightarrow> Logger" where
  "built_Logger e cfg rolling =
     DubboLogger (Some (SugaredLogger \<lparr>tee = zapCores e cfg rolling, callerSkip = 1\<rparr>))
       (Level cfg)"

text \<open>
  A caller's configuration whose level is the least \<^verbatim>\<open>int8\<close>, as
  \<^verbatim>\<open>zap.NewAtomicLevelAt(zapcore.Level(-128))\<close> makes it, in the state that holds its cell,
  and the state after \<^verbatim>\<open>InitLogger\<close> with it.
\<close>

definition lowest_conf :: zap_Config where
  "lowest_conf =
     \<lparr>Level = Some 0, Development = False, Encoding = ''json'',
      EncoderConfig = zero_EncoderConfig, OutputPaths = [''stderr''],
      ErrorOutputPaths = [''stderr'']\<rparr>"

definition lowest_state :: state where
  "lowest_state = init_state\<lparr>cells := (\<lambda>_. 0)(0 := - 128), next_cell := 1\<rparr>"

definition lowest_installed :: state where
  "lowest_installed =
     lowest_state
       \<lparr>logger := Some (built_Logger example_env lowest_conf (lumberjackRolling None)),
        getty_logger := Some (built_Logger example_env lowest_conf (lumberjackRolling None))\<rparr>"

text \<open>
  The state after a caller has installed a \<^verbatim>\<open>DubboLogger\<close> of its own making,
  \<^verbatim>\<open>SetLogger(&DubboLogger{Logger: backend})\<close>: its \<^verbatim>\<open>dynamicLevel\<close> is the zero value.
\<close>

definition literal_DubboLogger_state :: state where
  "literal_DubboLogger_state = SetLogger (Some (DubboLogger (Some (Backend 0)) None)) init_state"

text \<open>The state after the default logger has been installed in a fresh process.\<close>

definition default_installed :: state where
  "default_installed =
     (snd (zapLoggerConfig None init_state))
       \<lparr>logger := Some (built_Logger example_env (fst (zapLoggerConfig None init_state))
                         (lumberjackRolling None)),
        getty_logger := Some (built_Logger example_env (fst (zapLoggerConfig None init_state))
                               (lumberjackRolling None))\<rparr>"

text \<open>
  The state after \<^verbatim>\<open>InitLog("./log.yml")\<close> in a fresh process, with the configuration
  decoded from the file.
\<close>

definition yml_conf :: zap_Config where
  "yml_conf = zero_zap_Config\<lparr>Level := Some 0, Encoding := ''console''\<rparr>"

definition yml_installed :: state where
  "yml_installed =
     init_state
       \<lparr>logger := Some (built_Logger example_env yml_conf zero_RollingFileConfig),
        getty_logger := Some (built_Logger example_env yml_conf zero_RollingFileConfig),
        cells := (\<lambda>_. 0)(0 := DebugLevel), next_cell := Suc 0\<rparr>"

text \<open>
  The state after the default logger has been replaced by the sugared logger it embeds,
  \<^verbatim>\<open>SetLogger(GetLogger().(*DubboLogger).Logger)\<close>.
\<close>

definition bare_state :: state where
  "bare_state =
     SetLogger
       (Some (SugaredLogger
          \<lparr>tee = zapCores example_env (fst (zapLoggerConfig None init_state))
                   (lumberjackRolling None),
           callerSkip = 1\<rparr>))
       default_installed"

section \<open>Auxiliary facts\<close>

subsection \<open>Signed differences of levels\<close>

lemma sint_diff_int8:
  fixes a b :: Level
  assumes "- 128 \<le> sint a - sint b" and "sint a - sint b \<le> 127"
  shows "sint (a - b) = sint a - sint b"
  using assms by (simp add: sint_word_ariths signed_take_bit_int_eq_self)

lemma sint_Level_bounds: "- 128 \<le> sint (l :: Level) \<and> sint l \<le> 127"
  using sint_ge [of l] sint_lt [of l] by simp

lemma warn_gate:
  fixes L :: Level
  assumes "- 126 \<le> sint L"
  shows "(- 1 <s WarnLevel - L) = (L \<le>s WarnLevel)"
proof -
  have "sint (WarnLevel - L) = sint WarnLevel - sint L"
    using assms sint_Level_bounds [of L] by (intro sint_diff_int8) (simp_all add: WarnLevel_def)
  then show ?thesis
    by (auto simp: word_sless_alt word_sle_eq WarnLevel_def)
qed

lemma info_gate:
  fixes L :: Level
  assumes "- 127 \<le> sint L"
  shows "(- 1 <s InfoLevel - InfoLevel - L) = (L \<le>s InfoLevel)"
proof -
  have "sint (0 - L) = sint (0 :: Level) - sint L"
    using assms sint_Level_bounds [of L] by (intro sint_diff_int8) simp_all
  then show ?thesis
    by (auto simp: word_sless_alt word_sle_eq InfoLevel_def)
qed

lemma console_gate:
  fixes L level :: Level
  assumes "- 128 \<le> sint level - sint L" and "sint level - sint L \<le> 127"
  shows "(- 1 <s level - L) = (L \<le>s level)"
proof -
  have "sint (level - L) = sint level - sint L"
    using assms by (rule sint_diff_int8)
  then show ?thesis
    by (auto simp: word_sless_alt word_sle_eq)
qed

subsection \<open>What InitLoggerWithRolling installs\<close>

lemma zapLoggerConfig_None:
  "zapLoggerConfig None st =
     (\<lparr>Level = Some (next_cell st), Development = False, Encoding = ''console'',
       EncoderConfig = \<lparr>TimeKey = ''time'', LevelKey = ''level'', NameKey = ''logger'',
                  CallerKey = ''caller'', MessageKey = ''message'',
                  StacktraceKey = ''stacktrace'', EncodeLevel = ''CapitalLevelEncoder'',
                  EncodeTime = ''ISO8601TimeEncoder'',
                  EncodeDuration = ''SecondsDurationEncoder'',
                  EncodeCaller = ''ShortCallerEncoder''\<rparr>, OutputPaths = [''stderr''],
       ErrorOutputPaths = [''stderr'']\<rparr>,
      st\<lparr>cells := (cells st)(next_cell st := DebugLevel), next_cell := Suc (next_cell st)\<rparr>)"
  by (simp add: zapLoggerConfig_def NewAtomicLevelAt_def)

lemma zapLoggerConfig_Some: "zapLoggerConfig (Some c) st = (c, st)"
  by (simp add: zapLoggerConfig_def)

lemma InitLoggerWithRolling_unfold:
  "InitLoggerWithRolling e conf rolling st =
     (case BuildError e (fst (zapLoggerConfig conf st)) of
        Some err \<Rightarrow> Inl NilPointerDereference
      | None \<Rightarrow>
          Inr ((snd (zapLoggerConfig conf st))
                 \<lparr>logger := Some (built_Logger e (fst (zapLoggerConfig conf st))
                                   (lumberjackRolling rolling)),
                  getty_logger := Some (built_Logger e (fst (zapLoggerConfig conf st))
                                         (lumberjackRolling rolling))\<rparr>))"
proof -
  obtain cfg st1 where c: "zapLoggerConfig conf st = (cfg, st1)"
    by (cases "zapLoggerConfig conf st")
  show ?thesis
    by (cases "BuildError e cfg")
      (simp_all add: InitLoggerWithRolling_def c Build_def Sugar_def getty_SetLogger_def
        built_Logger_def)
qed

lemma InitLoggerWithRolling_builds:
  assumes "BuildError e (fst (zapLoggerConfig conf st)) = None"
  shows "InitLoggerWithRolling e conf rolling st =
           Inr ((snd (zapLoggerConfig conf st))
                  \<lparr>logger := Some (built_Logger e (fst (zapLoggerConfig conf st)) (lumberjackRolling rolling)),
                   getty_logger := Some (built_Logger e (fst (zapLoggerConfig conf st)) (lumberjackRolling rolling))\<rparr>)"
  using assms by (simp add: InitLoggerWithRolling_unfold)

lemma InitLoggerWithRolling_fails:
  assumes "BuildError e (fst (zapLoggerConfig conf st)) = Some err"
  shows "InitLoggerWithRolling e conf rolling st = Inl NilPointerDereference"
  using assms by (simp add: InitLoggerWithRolling_unfold)

lemma InitLoggerWithRolling_InrD:
  assumes "InitLoggerWithRolling e conf rolling st = Inr st'"
  shows "BuildError e (fst (zapLoggerConfig conf st)) = None"
proof (cases "BuildError e (fst (zapLoggerConfig conf st))")
  case None then show ?thesis .
next
  case (Some err)
  from InitLoggerWithRolling_fails [OF this] assms show ?thesis by simp
qed

lemma Logger_cores_built [simp]:
  "Logger_cores (Some (built_Logger e cfg r)) = zapCores e cfg r"
  by (simp add: built_Logger_def)

lemma dynamicLevel_built [simp]: "dynamicLevel (Some (built_Logger e cfg r)) = Level cfg"
  by (simp add: built_Logger_def)

lemma OpsLogger_built [simp]: "OpsLogger (Some (built_Logger e cfg r))"
  by (simp add: built_Logger_def)

lemma Logger_log_built [simp]:
  "Logger_log cs (Some (built_Logger e cfg r)) level = tee_Write cs (zapCores e cfg r) level"
  by (simp add: built_Logger_def)

lemma installed_after:
  assumes "InitLoggerWithRolling e conf rolling st = Inr st'"
  shows "logger st' = Some (built_Logger e (fst (zapLoggerConfig conf st)) (lumberjackRolling rolling))"
    and "getty_logger st' = logger st'"
    and "cells st' = cells (snd (zapLoggerConfig conf st))"
    and "BuildError e (fst (zapLoggerConfig conf st)) = None"
proof -
  show b: "BuildError e (fst (zapLoggerConfig conf st)) = None"
    using assms by (rule InitLoggerWithRolling_InrD)
  from InitLoggerWithRolling_builds [OF b, of rolling] assms
  have st': "st' = (snd (zapLoggerConfig conf st))
                  \<lparr>logger := Some (built_Logger e (fst (zapLoggerConfig conf st)) (lumberjackRolling rolling)),
                   getty_logger := Some (built_Logger e (fst (zapLoggerConfig conf st)) (lumberjackRolling rolling))\<rparr>"
    by simp
  show "logger st' = Some (built_Logger e (fst (zapLoggerConfig conf st)) (lumberjackRolling rolling))"
    by (simp add: st')
  show "getty_logger st' = logger st'" by (simp add: st')
  show "cells st' = cells (snd (zapLoggerConfig conf st))" by (simp add: st')
qed

lemma map_syncer_zapCores:
  "map syncer (zapCores e cfg r) =
     [Lumberjack (initLumberjackLogger e (InfoFilename r) r),
      Lumberjack (initLumberjackLogger e (WarnFilename r) r),
      Lumberjack (initLumberjackLogger e (ErrorFilename r) r),
      Stdout]"
  by (simp add: zapCores_def Let_def)

lemma map_enabler_zapCores:
  "map (\<lambda>c. enabler c cs level) (zapCores e cfg r) =
     [infoLevel cfg cs level, warnLevel cfg cs level, errorLevel cfg cs level,
      consoleLevel cfg cs level]"
  by (simp add: zapCores_def Let_def)

lemma sinks_Enabled_after:
  assumes "InitLoggerWithRolling e conf rolling st = Inr st'"
  shows "sinks_Enabled st' level =
           [infoLevel (fst (zapLoggerConfig conf st)) (cells st') level,
            warnLevel (fst (zapLoggerConfig conf st)) (cells st') level,
            errorLevel (fst (zapLoggerConfig conf st)) (cells st') level,
            consoleLevel (fst (zapLoggerConfig conf st)) (cells st') level]"
  by (simp add: sinks_Enabled_def installed_after(1) [OF assms] map_enabler_zapCores)

lemma tee_Write_zapCores:
  assumes "Level cfg = Some a"
  shows "\<exists>ws. tee_Write cs (zapCores e cfg r) level = Inr ws"
  using assms
  by (simp add: zapCores_def Let_def infoLevel_def warnLevel_def errorLevel_def
      consoleLevel_def AtomicLevel_Level_def)

lemma lowest_installed_eq:
  "InitLoggerWithRolling example_env (Some lowest_conf) None lowest_state = Inr lowest_installed"
  by (simp add: InitLoggerWithRolling_builds zapLoggerConfig_Some example_env_def
      example_BuildError_def lowest_conf_def lowest_installed_def)

lemma lowest_installed_syncers:
  "map syncer (Logger_cores (logger lowest_installed)) =
       [Lumberjack \<lparr>lj_Filename = ''./logs/dubbo-info.log'', lj_MaxSize = 30, lj_MaxBackups = 1,
                    lj_MaxAge = 3, lj_Compress = False\<rparr>,
        Lumberjack \<lparr>lj_Filename = ''./logs/dubbo-warn.log'', lj_MaxSize = 30, lj_MaxBackups = 1,
                    lj_MaxAge = 3, lj_Compress = False\<rparr>,
        Lumberjack \<lparr>lj_Filename = ''./logs/dubbo-error.log'', lj_MaxSize = 30, lj_MaxBackups = 1,
                    lj_MaxAge = 3, lj_Compress = False\<rparr>,
        Stdout]"
  by (simp add: lowest_installed_def map_syncer_zapCores lumberjackRolling_def
      initLumberjackLogger_def example_env_def)

lemma InitLog_empty_yml_panics:
  "InitLog example_env ''./empty.yml'' st = Inl NilPointerDereference"
proof -
  have b: "BuildError example_env zero_zap_Config = Some ''no encoder name specified''"
    by (simp add: example_env_def example_BuildError_def zero_zap_Config_def)
  have r: "ReadFile example_env ''./empty.yml'' = Inr []"
    by (simp add: example_env_def example_ReadFile_def)
  have u: "Unmarshal example_env [] w st = (None, w, st)" for w
    by (simp add: example_env_def example_Unmarshal_def log_yml_def)
  have x: "Ext ''./empty.yml'' = ''.yml''" by (simp add: Ext_def)
  have p: "InitLoggerWithRolling example_env (Some zero_zap_Config) rolling st
       = Inl NilPointerDereference" for rolling
    by (rule InitLoggerWithRolling_fails [where err = "''no encoder name specified''"])
      (simp add: zapLoggerConfig_Some b)
  show ?thesis
    by (simp add: InitLog_def x r u p)
qed

lemma default_installed_eq:
  "InitLoggerWithRolling example_env None None init_state = Inr default_installed"
  by (simp add: InitLoggerWithRolling_builds zapLoggerConfig_None example_env_def
      example_BuildError_def default_installed_def)

lemma InitLog_Inr_installed:
  assumes "InitLog e logConfFile st = Inr (err, st')"
  shows "\<exists>conf rolling st0. InitLoggerWithRolling e conf rolling st0 = Inr st'"
proof -
  have d: "\<exists>conf rolling st0. InitLoggerWithRolling e conf rolling st0 = Inr st'"
    if "default_then e msg s0 = Inr (err, st')" for msg s0
    using that by (auto simp: default_then_def split: sum.splits)
  show ?thesis
  proof (cases "logConfFile = [] \<or> Ext logConfFile \<noteq> ''.yml''")
    case True
    with assms d show ?thesis by (auto simp: InitLog_def split: if_splits)
  next
    case False
    show ?thesis
    proof (cases "ReadFile e logConfFile")
      case (Inl msg)
      with False assms d show ?thesis by (auto simp: InitLog_def)
    next
      case (Inr confFileStream)
      obtain uerr logConfig st1 where
        u: "Unmarshal e confFileStream
              \<lparr>LogConfig = zero_zap_Config, Rolling = zero_RollingFileConfig\<rparr> st = (uerr, logConfig, st1)"
        by (metis prod_cases3)
      show ?thesis
      proof (cases uerr)
        case None
        with False Inr u assms show ?thesis
          by (auto simp: InitLog_def split: sum.splits)
      next
        case (Some msg)
        with False Inr u assms d show ?thesis by (auto simp: InitLog_def)
      qed
    qed
  qed
qed

lemma yml_installed_eq:
  "InitLog example_env ''./log.yml'' init_state = Inr (None, yml_installed)"
proof -
  have x: "Ext ''./log.yml'' = ''.yml''" by (simp add: Ext_def)
  have r: "ReadFile example_env ''./log.yml'' = Inr log_yml"
    by (simp add: example_env_def example_ReadFile_def)
  have u: "Unmarshal example_env log_yml
             \<lparr>LogConfig = zero_zap_Config, Rolling = zero_RollingFileConfig\<rparr> init_state =
           (None, \<lparr>LogConfig = yml_conf, Rolling = zero_RollingFileConfig\<rparr>,
            init_state\<lparr>cells := (\<lambda>_. 0)(0 := DebugLevel), next_cell := Suc 0\<rparr>)"
    by (simp add: example_env_def example_Unmarshal_def NewAtomicLevelAt_def yml_conf_def
        init_state_def)
  have b: "BuildError example_env yml_conf = None"
    by (simp add: example_env_def example_BuildError_def yml_conf_def zero_zap_Config_def)
  have i: "InitLoggerWithRolling example_env (Some yml_conf) (Some zero_RollingFileConfig)
             (init_state\<lparr>cells := (\<lambda>_. 0)(0 := DebugLevel), next_cell := Suc 0\<rparr>) =
           Inr yml_installed"
    by (simp add: InitLoggerWithRolling_builds zapLoggerConfig_Some b yml_installed_def
        lumberjackRolling_def init_state_def)
  show ?thesis
    by (simp add: InitLog_def x r u i)
qed

section \<open>The claims\<close>

subsection \<open>C1: the enabler of the error file sink\<close>

text \<open>
  Claim C1. In the logger that \<open>InitLoggerWithRolling\<close> builds, the third core writes to
  the error file, and when the level cell of the logger holds \<open>L\<close> its enabler answers,
  for a record at \<open>level\<close>, whether \<open>level\<close> is strictly above warn and warn (not the
  record's level) is at or above \<open>L\<close>. So for every \<open>L\<close> strictly above warn the error
  sink takes no record at all, error records included. This holds for every \<open>L\<close> from
  \<open>-126\<close> upwards, which covers the named levels (debug \<open>-1\<close> to fatal \<open>5\<close>): the gate is
  the \<^verbatim>\<open>int8\<close> difference \<^verbatim>\<open>WarnLevel - L\<close>, which wraps around for \<open>L = -127\<close> and
  \<open>L = -128\<close>.
\<close>

theorem errorLevel_enablement:
  assumes "InitLoggerWithRolling e conf rolling st = Inr st'"
    and "AtomicLevel_Level (cells st') (dynamicLevel (logger st')) = Inr L"
    and "- 126 \<le> sint L"
  shows "map syncer (Logger_cores (logger st')) =
           [Lumberjack (initLumberjackLogger e (InfoFilename (lumberjackRolling rolling))
              (lumberjackRolling rolling)),
            Lumberjack (initLumberjackLogger e (WarnFilename (lumberjackRolling rolling))
              (lumberjackRolling rolling)),
            Lumberjack (initLumberjackLogger e (ErrorFilename (lumberjackRolling rolling))
              (lumberjackRolling rolling)),
            Stdout]
         \<and> (\<exists>i w c. sinks_Enabled st' level =
               [i, w, Inr (WarnLevel <s level \<and> L \<le>s WarnLevel), c])"
proof -
  let ?cfg = "fst (zapLoggerConfig conf st)"
  note inst = installed_after [OF assms(1)]
  have lvl: "AtomicLevel_Level (cells st') (Level ?cfg) = Inr L"
    using assms(2) by (simp add: inst(1))
  have "errorLevel ?cfg (cells st') level = Inr (WarnLevel <s level \<and> L \<le>s WarnLevel)"
    by (simp add: errorLevel_def lvl warn_gate [OF assms(3)])
  then show ?thesis
    by (simp add: sinks_Enabled_after [OF assms(1)] inst(1) map_syncer_zapCores)
qed

text \<open>
  Without the bound the statement fails. With the level \<open>-128\<close> warn is at or above
  \<open>L\<close> and an error record is above warn, yet \<^verbatim>\<open>WarnLevel - L\<close> wraps to \<open>-127\<close> and the
  error sink (like every other sink) refuses the error record.
\<close>

theorem errorLevel_lowest_counterexample:
  "InitLoggerWithRolling example_env (Some lowest_conf) None lowest_state = Inr lowest_installed
   \<and> AtomicLevel_Level (cells lowest_installed) (dynamicLevel (logger lowest_installed)) = Inr (- 128)
   \<and> sinks_Enabled lowest_installed ErrorLevel = [Inr False, Inr False, Inr False, Inr False]
   \<and> WarnLevel <s ErrorLevel \<and> (- 128 :: Level) \<le>s WarnLevel"
  apply (simp add: lowest_installed_eq)
  apply (simp add: sinks_Enabled_after [OF lowest_installed_eq] zapLoggerConfig_Some)
  apply (simp add: lowest_installed_def lowest_state_def lowest_conf_def AtomicLevel_Level_def
      infoLevel_def warnLevel_def errorLevel_def consoleLevel_def
      InfoLevel_def WarnLevel_def ErrorLevel_def word_sless_alt word_sle_eq)
  done

text \<open>
  The theorem at work: the default logger (level debug) in a fresh process gives an error
  record to the error file and to the console.
\<close>

theorem errorLevel_enablement_witness:
  "InitLoggerWithRolling example_env None None init_state = Inr default_installed
   \<and> AtomicLevel_Level (cells default_installed) (dynamicLevel (logger default_installed)) = Inr DebugLevel
   \<and> - 126 \<le> sint DebugLevel
   \<and> sinks_Enabled default_installed ErrorLevel = [Inr False, Inr False, Inr True, Inr True]"
proof -
  have l: "AtomicLevel_Level (cells default_installed) (dynamicLevel (logger default_installed)) = Inr DebugLevel"
    by (simp add: default_installed_def zapLoggerConfig_None AtomicLevel_Level_def)
  have b: "- 126 \<le> sint DebugLevel" by (simp add: DebugLevel_def)
  have s: "sinks_Enabled default_installed ErrorLevel = [Inr False, Inr False, Inr True, Inr True]"
    apply (simp add: sinks_Enabled_after [OF default_installed_eq] zapLoggerConfig_None)
    apply (simp add: default_installed_def zapLoggerConfig_None AtomicLevel_Level_def
      infoLevel_def warnLevel_def errorLevel_def consoleLevel_def DebugLevel_def
      InfoLevel_def WarnLevel_def ErrorLevel_def word_sless_alt word_sle_eq)
    done
  from errorLevel_enablement [OF default_installed_eq l b, of ErrorLevel] default_installed_eq l b s
  show ?thesis by simp
qed

subsection \<open>C2: SetLoggerLevel and the capability\<close>

text \<open>
  Claim C2. For every level name \<open>s\<close>: when the active logger lacks the level-adjustment
  capability, \<open>SetLoggerLevel\<close> returns false and changes no state. When it has the
  capability, a call that returns, returns true. When it is a \<^verbatim>\<open>DubboLogger\<close> and \<open>s\<close> does
  not parse, the call returns true and the state, the dynamic level with it, is
  unchanged; when \<open>s\<close> parses to \<open>l\<close> and the logger's dynamic level has its cell \<open>a\<close>,
  the call returns true and the cell holds \<open>l\<close> afterwards.
\<close>

theorem SetLoggerLevel_capability:
  "(\<not> OpsLogger (logger st) \<longrightarrow> SetLoggerLevel e s st = Inr (False, st))
   \<and> (OpsLogger (logger st) \<longrightarrow> (\<forall>b st'. SetLoggerLevel e s st = Inr (b, st') \<longrightarrow> b))
   \<and> (\<forall>embedded lvl. logger st = Some (DubboLogger embedded lvl) \<longrightarrow>
        (Level_Set e s = None \<longrightarrow> SetLoggerLevel e s st = Inr (True, st))
        \<and> (\<forall>a l. lvl = Some a \<and> Level_Set e s = Some l \<longrightarrow>
              SetLoggerLevel e s st = Inr (True, st\<lparr>cells := (cells st)(a := l)\<rparr>)))"
proof (intro conjI impI allI)
  assume "\<not> OpsLogger (logger st)"
  then show "SetLoggerLevel e s st = Inr (False, st)"
    by (cases "logger st" rule: OpsLogger.cases) (simp_all add: SetLoggerLevel_def)
next
  fix b st'
  assume "OpsLogger (logger st)" and "SetLoggerLevel e s st = Inr (b, st')"
  then show b
    by (cases "logger st" rule: OpsLogger.cases)
      (auto simp: SetLoggerLevel_def split: sum.splits option.splits)
next
  fix embedded lvl
  assume "logger st = Some (DubboLogger embedded lvl)" and "Level_Set e s = None"
  then show "SetLoggerLevel e s st = Inr (True, st)"
    by (simp add: SetLoggerLevel_def DubboLogger_SetLoggerLevel_def)
next
  fix embedded lvl a l
  assume "logger st = Some (DubboLogger embedded lvl)" and "lvl = Some a \<and> Level_Set e s = Some l"
  then show "SetLoggerLevel e s st = Inr (True, st\<lparr>cells := (cells st)(a := l)\<rparr>)"
    by (simp add: SetLoggerLevel_def DubboLogger_SetLoggerLevel_def AtomicLevel_SetLevel_def)
qed

text \<open>
  That the capability alone makes the call return true fails: \<^verbatim>\<open>DubboLogger\<close> is an
  exported type, and one made by a struct literal has the zero \<^verbatim>\<open>AtomicLevel\<close> as its
  \<^verbatim>\<open>dynamicLevel\<close> (zap asks for \<^verbatim>\<open>NewAtomicLevel\<close> to allocate the cell). With it
  installed by \<open>SetLogger\<close>, the logger has the capability, \<^verbatim>\<open>info\<close> parses, and
  \<^verbatim>\<open>SetLevel\<close> stores through the \<^verbatim>\<open>nil\<close> pointer: the call panics instead of returning.
\<close>

theorem SetLoggerLevel_zero_level_counterexample:
  "OpsLogger (logger literal_DubboLogger_state)
   \<and> Level_Set example_env ''info'' = Some InfoLevel
   \<and> SetLoggerLevel example_env ''info'' literal_DubboLogger_state = Inl NilPointerDereference"
  by (simp add: literal_DubboLogger_state_def SetLogger_def getty_SetLogger_def
      SetLoggerLevel_def DubboLogger_SetLoggerLevel_def AtomicLevel_SetLevel_def
      example_env_def example_Level_Set_def)

text \<open>
  The theorem at work, along the repository's test: on the default logger an unknown
  name changes nothing and \<^verbatim>\<open>info\<close> sets the cell, both returning true; once the embedded
  sugared logger has been installed in its place the call returns false.
\<close>

theorem SetLoggerLevel_capability_witness:
  "logger default_installed =
      Some (built_Logger example_env (fst (zapLoggerConfig None init_state)) (lumberjackRolling None))
   \<and> OpsLogger (logger default_installed)
   \<and> Level_Set example_env ''verbose'' = None
   \<and> SetLoggerLevel example_env ''verbose'' default_installed = Inr (True, default_installed)
   \<and> Level_Set example_env ''info'' = Some InfoLevel
   \<and> SetLoggerLevel example_env ''info'' default_installed =
        Inr (True, default_installed\<lparr>cells := (cells default_installed)(0 := InfoLevel)\<rparr>)
   \<and> \<not> OpsLogger (logger bare_state)
   \<and> SetLoggerLevel example_env ''debug'' bare_state = Inr (False, bare_state)"
proof -
  have lg: "logger default_installed =
      Some (DubboLogger
        (Some (SugaredLogger \<lparr>tee = zapCores example_env (fst (zapLoggerConfig None init_state))
                 (lumberjackRolling None), callerSkip = 1\<rparr>)) (Some 0))"
    by (simp add: default_installed_def built_Logger_def zapLoggerConfig_None init_state_def)
  have p1: "Level_Set example_env ''verbose'' = None"
    and p2: "Level_Set example_env ''info'' = Some InfoLevel"
    by (simp_all add: example_env_def example_Level_Set_def)
  have nb: "\<not> OpsLogger (logger bare_state)"
    by (simp add: bare_state_def SetLogger_def getty_SetLogger_def)
  note t1 = SetLoggerLevel_capability [of default_installed example_env "''verbose''"]
  note t2 = SetLoggerLevel_capability [of default_installed example_env "''info''"]
  note t3 = SetLoggerLevel_capability [of bare_state example_env "''debug''"]
  have a: "SetLoggerLevel example_env ''verbose'' default_installed = Inr (True, default_installed)"
    using t1 lg p1 by blast
  have b: "SetLoggerLevel example_env ''info'' default_installed =
        Inr (True, default_installed\<lparr>cells := (cells default_installed)(0 := InfoLevel)\<rparr>)"
    using t2 lg p2 by blast
  have c: "SetLoggerLevel example_env ''debug'' bare_state = Inr (False, bare_state)"
    using t3 nb by blast
  from a b c p1 p2 nb show ?thesis
    by (simp add: default_installed_def)
qed

subsection \<open>C3: InitLog with the empty path\<close>

text \<open>
  Claim C3. For the empty path \<open>InitLog\<close> returns the error with the message
  \<^verbatim>\<open>log configure file name is nil\<close> and has installed the default logger: the active
  logger is not \<^verbatim>\<open>nil\<close>, and a log call on it at any level returns without a panic.
  The one thing taken from zap is that \<^verbatim>\<open>Build\<close> succeeds on the default configuration
  (console encoding, standard error, a level), written as a premise.
\<close>

theorem InitLog_empty_path:
  assumes "BuildError e (fst (zapLoggerConfig None st)) = None"
  shows "\<exists>st'. InitLog e [] st = Inr (Some ''log configure file name is nil'', st')
           \<and> InitLoggerWithRolling e None None st = Inr st'
           \<and> logger st' \<noteq> None
           \<and> (\<forall>level. \<exists>ws. Logger_log (cells st') (logger st') level = Inr ws)"
proof -
  from InitLoggerWithRolling_builds [OF assms, of None]
  obtain st' where st': "InitLoggerWithRolling e None None st = Inr st'" by blast
  note inst = installed_after [OF st']
  have "InitLog e [] st = Inr (Some ''log configure file name is nil'', st')"
    by (simp add: InitLog_def default_then_def st')
  moreover have "logger st' \<noteq> None" by (simp add: inst(1))
  moreover have "\<exists>ws. Logger_log (cells st') (logger st') level = Inr ws" for level
    by (simp add: inst(1) tee_Write_zapCores [of _ "next_cell st"] zapLoggerConfig_None)
  ultimately show ?thesis using st' by blast
qed

text \<open>
  The theorem at work in a fresh process: the error, the installed state, and an info
  record that reaches the info file and the console.
\<close>

theorem InitLog_empty_path_witness:
  "BuildError example_env (fst (zapLoggerConfig None init_state)) = None
   \<and> InitLog example_env [] init_state = Inr (Some ''log configure file name is nil'', default_installed)
   \<and> logger default_installed \<noteq> None
   \<and> Logger_log (cells default_installed) (logger default_installed) InfoLevel =
        Inr [Lumberjack (initLumberjackLogger example_env ''dubbo-info.log'' (lumberjackRolling None)), Stdout]"
proof -
  have b: "BuildError example_env (fst (zapLoggerConfig None init_state)) = None"
    by (simp add: zapLoggerConfig_None example_env_def example_BuildError_def)
  from InitLog_empty_path [OF b] default_installed_eq
  have i: "InitLog example_env [] init_state = Inr (Some ''log configure file name is nil'', default_installed)"
    and n: "logger default_installed \<noteq> None"
    by auto
  have l: "Logger_log (cells default_installed) (logger default_installed) InfoLevel =
        Inr [Lumberjack (initLumberjackLogger example_env ''dubbo-info.log'' (lumberjackRolling None)), Stdout]"
    by (simp add: default_installed_def zapLoggerConfig_None zapCores_def Let_def
        infoLevel_def warnLevel_def errorLevel_def consoleLevel_def AtomicLevel_Level_def
        lumberjackRolling_def DebugLevel_def InfoLevel_def WarnLevel_def word_sless_alt)
  from b i n l show ?thesis by simp
qed

subsection \<open>C4: the sinks and the level of the default logger\<close>

text \<open>
  Claim C4. The default logger, installed by \<open>InitLoggerWithRolling\<close> with both arguments
  \<^verbatim>\<open>nil\<close> as on every failure path of \<open>InitLog\<close>, has minimum level debug. It is not
  console-only: the four cores are built whatever the configuration, so it has the three
  file sinks \<^verbatim>\<open>dubbo-info.log\<close>, \<^verbatim>\<open>dubbo-warn.log\<close> and \<^verbatim>\<open>dubbo-error.log\<close> under \<^verbatim>\<open>./logs\<close>
  (size 30, 1 backup, age 3, not compressed) and standard output as the fourth sink.
\<close>

theorem default_logger_sinks:
  assumes "BuildError e (fst (zapLoggerConfig None st)) = None"
  shows "\<exists>st'. InitLoggerWithRolling e None None st = Inr st'
           \<and> map syncer (Logger_cores (logger st')) =
               [Lumberjack \<lparr>lj_Filename = ''./logs'' @ [Separator e] @ ''dubbo-info.log'',
                            lj_MaxSize = 30, lj_MaxBackups = 1, lj_MaxAge = 3,
                            lj_Compress = False\<rparr>,
                Lumberjack \<lparr>lj_Filename = ''./logs'' @ [Separator e] @ ''dubbo-warn.log'',
                            lj_MaxSize = 30, lj_MaxBackups = 1, lj_MaxAge = 3,
                            lj_Compress = False\<rparr>,
                Lumberjack \<lparr>lj_Filename = ''./logs'' @ [Separator e] @ ''dubbo-error.log'',
                            lj_MaxSize = 30, lj_MaxBackups = 1, lj_MaxAge = 3,
                            lj_Compress = False\<rparr>,
                Stdout]
           \<and> AtomicLevel_Level (cells st') (dynamicLevel (logger st')) = Inr DebugLevel"
proof -
  from InitLoggerWithRolling_builds [OF assms, of None]
  obtain st' where st': "InitLoggerWithRolling e None None st = Inr st'" by blast
  note inst = installed_after [OF st']
  have "map syncer (Logger_cores (logger st')) =
               [Lumberjack \<lparr>lj_Filename = ''./logs'' @ [Separator e] @ ''dubbo-info.log'',
                            lj_MaxSize = 30, lj_MaxBackups = 1, lj_MaxAge = 3,
                            lj_Compress = False\<rparr>,
                Lumberjack \<lparr>lj_Filename = ''./logs'' @ [Separator e] @ ''dubbo-warn.log'',
                            lj_MaxSize = 30, lj_MaxBackups = 1, lj_MaxAge = 3,
                            lj_Compress = False\<rparr>,
                Lumberjack \<lparr>lj_Filename = ''./logs'' @ [Separator e] @ ''dubbo-error.log'',
                            lj_MaxSize = 30, lj_MaxBackups = 1, lj_MaxAge = 3,
                            lj_Compress = False\<rparr>,
                Stdout]"
    by (simp add: inst(1) map_syncer_zapCores lumberjackRolling_def initLumberjackLogger_def)
  moreover have "AtomicLevel_Level (cells st') (dynamicLevel (logger st')) = Inr DebugLevel"
    by (simp add: inst(1) inst(3) zapLoggerConfig_None AtomicLevel_Level_def)
  ultimately show ?thesis using st' by (intro exI [of _ st']) simp
qed

text \<open>
  The default logger that \<^verbatim>\<open>InitLog("")\<close> leaves in a fresh process has three file sinks,
  and an info record logged through it is written to \<^verbatim>\<open>./logs/dubbo-info.log\<close> as well as
  to the console.
\<close>

theorem default_logger_file_sinks_counterexample:
  "InitLog example_env [] init_state = Inr (Some ''log configure file name is nil'', default_installed)
   \<and> file_sinks (logger default_installed) =
       [Lumberjack \<lparr>lj_Filename = ''./logs/dubbo-info.log'', lj_MaxSize = 30, lj_MaxBackups = 1,
                    lj_MaxAge = 3, lj_Compress = False\<rparr>,
        Lumberjack \<lparr>lj_Filename = ''./logs/dubbo-warn.log'', lj_MaxSize = 30, lj_MaxBackups = 1,
                    lj_MaxAge = 3, lj_Compress = False\<rparr>,
        Lumberjack \<lparr>lj_Filename = ''./logs/dubbo-error.log'', lj_MaxSize = 30, lj_MaxBackups = 1,
                    lj_MaxAge = 3, lj_Compress = False\<rparr>]
   \<and> Logger_log (cells default_installed) (logger default_installed) InfoLevel =
       Inr [Lumberjack \<lparr>lj_Filename = ''./logs/dubbo-info.log'', lj_MaxSize = 30,
                        lj_MaxBackups = 1, lj_MaxAge = 3, lj_Compress = False\<rparr>, Stdout]"
proof -
  have "InitLog example_env [] init_state = Inr (Some ''log configure file name is nil'', default_installed)"
    by (simp add: InitLog_def default_then_def default_installed_eq)
  moreover have "file_sinks (logger default_installed) =
       [Lumberjack \<lparr>lj_Filename = ''./logs/dubbo-info.log'', lj_MaxSize = 30, lj_MaxBackups = 1,
                    lj_MaxAge = 3, lj_Compress = False\<rparr>,
        Lumberjack \<lparr>lj_Filename = ''./logs/dubbo-warn.log'', lj_MaxSize = 30, lj_MaxBackups = 1,
                    lj_MaxAge = 3, lj_Compress = False\<rparr>,
        Lumberjack \<lparr>lj_Filename = ''./logs/dubbo-error.log'', lj_MaxSize = 30, lj_MaxBackups = 1,
                    lj_MaxAge = 3, lj_Compress = False\<rparr>]"
    by (simp add: file_sinks_def default_installed_def map_syncer_zapCores lumberjackRolling_def
        initLumberjackLogger_def example_env_def)
  moreover have "Logger_log (cells default_installed) (logger default_installed) InfoLevel =
       Inr [Lumberjack \<lparr>lj_Filename = ''./logs/dubbo-info.log'', lj_MaxSize = 30,
                        lj_MaxBackups = 1, lj_MaxAge = 3, lj_Compress = False\<rparr>, Stdout]"
    by (simp add: default_installed_def zapLoggerConfig_None zapCores_def Let_def
        infoLevel_def warnLevel_def errorLevel_def consoleLevel_def AtomicLevel_Level_def
        lumberjackRolling_def initLumberjackLogger_def example_env_def
        DebugLevel_def InfoLevel_def WarnLevel_def word_sless_alt)
  ultimately show ?thesis by simp
qed

text \<open>
  The theorem at work in a fresh process.
\<close>

theorem default_logger_sinks_witness:
  "BuildError example_env (fst (zapLoggerConfig None init_state)) = None
   \<and> InitLoggerWithRolling example_env None None init_state = Inr default_installed
   \<and> map syncer (Logger_cores (logger default_installed)) =
       [Lumberjack \<lparr>lj_Filename = ''./logs/dubbo-info.log'', lj_MaxSize = 30, lj_MaxBackups = 1,
                    lj_MaxAge = 3, lj_Compress = False\<rparr>,
        Lumberjack \<lparr>lj_Filename = ''./logs/dubbo-warn.log'', lj_MaxSize = 30, lj_MaxBackups = 1,
                    lj_MaxAge = 3, lj_Compress = False\<rparr>,
        Lumberjack \<lparr>lj_Filename = ''./logs/dubbo-error.log'', lj_MaxSize = 30, lj_MaxBackups = 1,
                    lj_MaxAge = 3, lj_Compress = False\<rparr>,
        Stdout]
   \<and> AtomicLevel_Level (cells default_installed) (dynamicLevel (logger default_installed)) =
       Inr DebugLevel"
proof -
  have b: "BuildError example_env (fst (zapLoggerConfig None init_state)) = None"
    by (simp add: zapLoggerConfig_None example_env_def example_BuildError_def)
  have s: "Separator example_env = CHR ''/''" by (simp add: example_env_def)
  from default_logger_sinks [OF b] default_installed_eq b s show ?thesis by auto
qed

subsection \<open>C5: InitLoggerWithRolling when Build returns an error\<close>

text \<open>
  Claim C5 says that \<open>InitLoggerWithRolling\<close> completes and installs a logger for every
  pair of inputs, and that the branch where the construction of the logger returns an
  error is harmless. The source drops the error of \<^verbatim>\<open>Build\<close> and calls \<^verbatim>\<open>Sugar\<close> on the
  logger returned with it, which is \<^verbatim>\<open>nil\<close>. For the zero \<^verbatim>\<open>zap.Config\<close>, whose encoding is
  empty, the call panics and installs nothing; \<open>InitLog\<close> reaches it with an empty
  \<^verbatim>\<open>.yml\<close> file, which decodes without an error and leaves the configuration zero.
\<close>

theorem InitLoggerWithRolling_Build_error_panics:
  "BuildError example_env zero_zap_Config = Some ''no encoder name specified''
   \<and> InitLoggerWithRolling example_env (Some zero_zap_Config) None init_state
       = Inl NilPointerDereference
   \<and> ReadFile example_env ''./empty.yml'' = Inr []
   \<and> InitLog example_env ''./empty.yml'' init_state = Inl NilPointerDereference"
proof -
  have b: "BuildError example_env zero_zap_Config = Some ''no encoder name specified''"
    by (simp add: example_env_def example_BuildError_def zero_zap_Config_def)
  have r: "ReadFile example_env ''./empty.yml'' = Inr []"
    by (simp add: example_env_def example_ReadFile_def)
  have u: "Unmarshal example_env [] w st = (None, w, st)" for w st
    by (simp add: example_env_def example_Unmarshal_def log_yml_def)
  have x: "Ext ''./empty.yml'' = ''.yml''" by (simp add: Ext_def)
  have p: "InitLoggerWithRolling example_env (Some zero_zap_Config) rolling init_state
       = Inl NilPointerDereference" for rolling
    by (rule InitLoggerWithRolling_fails [where err = "''no encoder name specified''"])
      (simp add: zapLoggerConfig_Some b)
  have "InitLog example_env ''./empty.yml'' init_state = Inl NilPointerDereference"
    by (simp add: InitLog_def x r u p)
  with b r p show ?thesis by simp
qed

subsection \<open>C6: the enablers of the info, warn and console sinks\<close>

text \<open>
  Claim C6. In the logger that \<open>InitLoggerWithRolling\<close> builds, the cores write, in this
  order, to the info file, the warn file, the error file and standard output. With \<open>L\<close>
  in its level cell, for a record at \<open>level\<close>: the info sink's enabler answers whether \<open>level\<close> is info
  and info is at or above \<open>L\<close>, for every \<open>L\<close> but \<open>-128\<close>; the warn sink's enabler answers
  whether \<open>level\<close> is warn and warn is at or above \<open>L\<close>, for every \<open>L\<close> from \<open>-126\<close>
  upwards; the console sink's enabler answers whether \<open>level\<close> is at or above \<open>L\<close>,
  whenever the difference of the two levels fits an \<^verbatim>\<open>int8\<close>. All three conditions hold
  between named levels (debug \<open>-1\<close> to fatal \<open>5\<close>). The enablers compare \<^verbatim>\<open>int8\<close>
  differences with \<open>-1\<close>, and outside these ranges the difference wraps around.
\<close>

theorem info_warn_console_enablement:
  assumes "InitLoggerWithRolling e conf rolling st = Inr st'"
    and "AtomicLevel_Level (cells st') (dynamicLevel (logger st')) = Inr L"
  shows "map syncer (Logger_cores (logger st')) =
           [Lumberjack (initLumberjackLogger e (InfoFilename (lumberjackRolling rolling))
              (lumberjackRolling rolling)),
            Lumberjack (initLumberjackLogger e (WarnFilename (lumberjackRolling rolling))
              (lumberjackRolling rolling)),
            Lumberjack (initLumberjackLogger e (ErrorFilename (lumberjackRolling rolling))
              (lumberjackRolling rolling)),
            Stdout]
         \<and> (\<exists>i w x c. sinks_Enabled st' level = [i, w, x, c]
               \<and> (sint L \<noteq> - 128 \<longrightarrow> i = Inr (level = InfoLevel \<and> L \<le>s InfoLevel))
               \<and> (- 126 \<le> sint L \<longrightarrow> w = Inr (level = WarnLevel \<and> L \<le>s WarnLevel))
               \<and> (- 128 \<le> sint level - sint L \<and> sint level - sint L \<le> 127
                    \<longrightarrow> c = Inr (L \<le>s level)))"
proof -
  let ?cfg = "fst (zapLoggerConfig conf st)"
  note inst = installed_after [OF assms(1)]
  have lvl: "AtomicLevel_Level (cells st') (Level ?cfg) = Inr L"
    using assms(2) by (simp add: inst(1))
  have i: "infoLevel ?cfg (cells st') level = Inr (level = InfoLevel \<and> L \<le>s InfoLevel)"
    if "sint L \<noteq> - 128"
  proof -
    from that sint_Level_bounds [of L] have "- 127 \<le> sint L" by simp
    from info_gate [OF this] show ?thesis by (simp add: infoLevel_def lvl)
  qed
  have w: "warnLevel ?cfg (cells st') level = Inr (level = WarnLevel \<and> L \<le>s WarnLevel)"
    if "- 126 \<le> sint L"
    by (simp add: warnLevel_def lvl warn_gate [OF that])
  have c: "consoleLevel ?cfg (cells st') level = Inr (L \<le>s level)"
    if "- 128 \<le> sint level - sint L" and "sint level - sint L \<le> 127"
    by (simp add: consoleLevel_def lvl console_gate [OF that])
  from i w c show ?thesis
    by (simp add: sinks_Enabled_after [OF assms(1)] inst(1) map_syncer_zapCores)
qed

text \<open>
  Without the ranges the statement fails. With the level \<open>-128\<close> info is at or above \<open>L\<close>,
  yet an info record is refused by the info sink, the first core (\<^verbatim>\<open>0 - 0 - L\<close> wraps to
  \<open>-128\<close>), and by the console, the fourth (\<^verbatim>\<open>0 - L\<close> wraps as well).
\<close>

theorem info_console_lowest_counterexample:
  "InitLoggerWithRolling example_env (Some lowest_conf) None lowest_state = Inr lowest_installed
   \<and> AtomicLevel_Level (cells lowest_installed) (dynamicLevel (logger lowest_installed)) = Inr (- 128)
   \<and> map syncer (Logger_cores (logger lowest_installed)) =
       [Lumberjack \<lparr>lj_Filename = ''./logs/dubbo-info.log'', lj_MaxSize = 30, lj_MaxBackups = 1,
                    lj_MaxAge = 3, lj_Compress = False\<rparr>,
        Lumberjack \<lparr>lj_Filename = ''./logs/dubbo-warn.log'', lj_MaxSize = 30, lj_MaxBackups = 1,
                    lj_MaxAge = 3, lj_Compress = False\<rparr>,
        Lumberjack \<lparr>lj_Filename = ''./logs/dubbo-error.log'', lj_MaxSize = 30, lj_MaxBackups = 1,
                    lj_MaxAge = 3, lj_Compress = False\<rparr>,
        Stdout]
   \<and> sinks_Enabled lowest_installed InfoLevel = [Inr False, Inr False, Inr False, Inr False]
   \<and> (- 128 :: Level) \<le>s InfoLevel"
  apply (simp add: lowest_installed_eq lowest_installed_syncers)
  apply (simp add: sinks_Enabled_after [OF lowest_installed_eq] zapLoggerConfig_Some)
  apply (simp add: lowest_installed_def lowest_state_def lowest_conf_def AtomicLevel_Level_def
      infoLevel_def warnLevel_def errorLevel_def consoleLevel_def
      InfoLevel_def WarnLevel_def ErrorLevel_def word_sless_alt word_sle_eq)
  done

text \<open>
  The theorem at work: the default logger (level debug) gives an info record to the info
  file and to the console.
\<close>

theorem info_warn_console_enablement_witness:
  "InitLoggerWithRolling example_env None None init_state = Inr default_installed
   \<and> AtomicLevel_Level (cells default_installed) (dynamicLevel (logger default_installed)) = Inr DebugLevel
   \<and> sint DebugLevel \<noteq> - 128 \<and> - 126 \<le> sint DebugLevel
   \<and> - 128 \<le> sint InfoLevel - sint DebugLevel \<and> sint InfoLevel - sint DebugLevel \<le> 127
   \<and> map syncer (Logger_cores (logger default_installed)) =
       [Lumberjack \<lparr>lj_Filename = ''./logs/dubbo-info.log'', lj_MaxSize = 30, lj_MaxBackups = 1,
                    lj_MaxAge = 3, lj_Compress = False\<rparr>,
        Lumberjack \<lparr>lj_Filename = ''./logs/dubbo-warn.log'', lj_MaxSize = 30, lj_MaxBackups = 1,
                    lj_MaxAge = 3, lj_Compress = False\<rparr>,
        Lumberjack \<lparr>lj_Filename = ''./logs/dubbo-error.log'', lj_MaxSize = 30, lj_MaxBackups = 1,
                    lj_MaxAge = 3, lj_Compress = False\<rparr>,
        Stdout]
   \<and> sinks_Enabled default_installed InfoLevel = [Inr True, Inr False, Inr False, Inr True]"
proof -
  have l: "AtomicLevel_Level (cells default_installed) (dynamicLevel (logger default_installed)) = Inr DebugLevel"
    by (simp add: default_installed_def zapLoggerConfig_None AtomicLevel_Level_def)
  have b: "sint DebugLevel \<noteq> - 128" "- 126 \<le> sint DebugLevel"
    "- 128 \<le> sint InfoLevel - sint DebugLevel" "sint InfoLevel - sint DebugLevel \<le> 127"
    by (simp_all add: DebugLevel_def InfoLevel_def)
  have d: "DebugLevel \<le>s InfoLevel" "InfoLevel \<noteq> WarnLevel" "\<not> WarnLevel <s InfoLevel"
    by (simp_all add: DebugLevel_def InfoLevel_def WarnLevel_def word_sle_eq word_sless_alt)
  note t = info_warn_console_enablement [OF default_installed_eq l, of InfoLevel]
  from t have m: "map syncer (Logger_cores (logger default_installed)) =
       [Lumberjack \<lparr>lj_Filename = ''./logs/dubbo-info.log'', lj_MaxSize = 30, lj_MaxBackups = 1,
                    lj_MaxAge = 3, lj_Compress = False\<rparr>,
        Lumberjack \<lparr>lj_Filename = ''./logs/dubbo-warn.log'', lj_MaxSize = 30, lj_MaxBackups = 1,
                    lj_MaxAge = 3, lj_Compress = False\<rparr>,
        Lumberjack \<lparr>lj_Filename = ''./logs/dubbo-error.log'', lj_MaxSize = 30, lj_MaxBackups = 1,
                    lj_MaxAge = 3, lj_Compress = False\<rparr>,
        Stdout]"
    by (simp add: lumberjackRolling_def initLumberjackLogger_def example_env_def)
  from t obtain i w x c where s: "sinks_Enabled default_installed InfoLevel = [i, w, x, c]"
    and i: "i = Inr True" and w: "w = Inr False" and c: "c = Inr True"
    using b d by auto
  have "x = Inr False"
    using s d
    by (simp add: sinks_Enabled_after [OF default_installed_eq] errorLevel_def)
  with s i w c m default_installed_eq l b show ?thesis by simp
qed

subsection \<open>C7: the default rolling configuration\<close>

text \<open>
  Claim C7. When \<open>InitLoggerWithRolling\<close> is called with the rolling configuration absent
  (as \<open>InitLogger\<close> calls it), the rolling configuration it resolves is exactly: path
  \<^verbatim>\<open>./logs\<close>, file names \<^verbatim>\<open>dubbo-error.log\<close>, \<^verbatim>\<open>dubbo-warn.log\<close> and \<^verbatim>\<open>dubbo-info.log\<close>, size
  30, 1 backup, age 3, no compression. It is what the installed logger carries: whatever
  the logger configuration, the three file sinks of the logger the call leaves installed
  are the rolling files made from these values, each path joined to its file name by the
  separator, followed by standard output.
\<close>

theorem lumberjackRolling_default:
  assumes "InitLoggerWithRolling e conf None st = Inr st'"
  shows "lumberjackRolling None =
           \<lparr>LogFilePath = ''./logs'', ErrorFilename = ''dubbo-error.log'',
            WarnFilename = ''dubbo-warn.log'', InfoFilename = ''dubbo-info.log'',
            MaxSize = 30, MaxBackups = 1, MaxAge = 3, Compress = False\<rparr>
         \<and> InitLogger e conf st = Inr st'
         \<and> map syncer (Logger_cores (logger st')) =
             [Lumberjack \<lparr>lj_Filename = ''./logs'' @ [Separator e] @ ''dubbo-info.log'',
                lj_MaxSize = 30, lj_MaxBackups = 1, lj_MaxAge = 3, lj_Compress = False\<rparr>,
              Lumberjack \<lparr>lj_Filename = ''./logs'' @ [Separator e] @ ''dubbo-warn.log'',
                lj_MaxSize = 30, lj_MaxBackups = 1, lj_MaxAge = 3, lj_Compress = False\<rparr>,
              Lumberjack \<lparr>lj_Filename = ''./logs'' @ [Separator e] @ ''dubbo-error.log'',
                lj_MaxSize = 30, lj_MaxBackups = 1, lj_MaxAge = 3, lj_Compress = False\<rparr>,
              Stdout]
         \<and> map syncer (Logger_cores (getty_logger st')) =
             map syncer (Logger_cores (logger st'))"
proof -
  note inst = installed_after [OF assms]
  have "lumberjackRolling None =
           \<lparr>LogFilePath = ''./logs'', ErrorFilename = ''dubbo-error.log'',
            WarnFilename = ''dubbo-warn.log'', InfoFilename = ''dubbo-info.log'',
            MaxSize = 30, MaxBackups = 1, MaxAge = 3, Compress = False\<rparr>"
    by (simp add: lumberjackRolling_def)
  moreover have "InitLogger e conf st = Inr st'"
    using assms by (simp add: InitLogger_def)
  moreover have "map syncer (Logger_cores (logger st')) =
             [Lumberjack \<lparr>lj_Filename = ''./logs'' @ [Separator e] @ ''dubbo-info.log'',
                lj_MaxSize = 30, lj_MaxBackups = 1, lj_MaxAge = 3, lj_Compress = False\<rparr>,
              Lumberjack \<lparr>lj_Filename = ''./logs'' @ [Separator e] @ ''dubbo-warn.log'',
                lj_MaxSize = 30, lj_MaxBackups = 1, lj_MaxAge = 3, lj_Compress = False\<rparr>,
              Lumberjack \<lparr>lj_Filename = ''./logs'' @ [Separator e] @ ''dubbo-error.log'',
                lj_MaxSize = 30, lj_MaxBackups = 1, lj_MaxAge = 3, lj_Compress = False\<rparr>,
              Stdout]"
    by (simp add: inst(1) map_syncer_zapCores lumberjackRolling_def initLumberjackLogger_def)
  moreover have "map syncer (Logger_cores (getty_logger st')) =
             map syncer (Logger_cores (logger st'))"
    by (simp add: inst(2))
  ultimately show ?thesis by simp
qed

text \<open>
  The theorem at work on a caller's configuration (JSON encoding, its own level) with no
  rolling configuration: the installed logger writes to the default files.
\<close>

theorem lumberjackRolling_default_witness:
  "InitLoggerWithRolling example_env (Some lowest_conf) None lowest_state = Inr lowest_installed
   \<and> InitLogger example_env (Some lowest_conf) lowest_state = Inr lowest_installed
   \<and> map syncer (Logger_cores (logger lowest_installed)) =
       [Lumberjack \<lparr>lj_Filename = ''./logs/dubbo-info.log'', lj_MaxSize = 30, lj_MaxBackups = 1,
                    lj_MaxAge = 3, lj_Compress = False\<rparr>,
        Lumberjack \<lparr>lj_Filename = ''./logs/dubbo-warn.log'', lj_MaxSize = 30, lj_MaxBackups = 1,
                    lj_MaxAge = 3, lj_Compress = False\<rparr>,
        Lumberjack \<lparr>lj_Filename = ''./logs/dubbo-error.log'', lj_MaxSize = 30, lj_MaxBackups = 1,
                    lj_MaxAge = 3, lj_Compress = False\<rparr>,
        Stdout]"
proof -
  have s: "Separator example_env = CHR ''/''" by (simp add: example_env_def)
  from lumberjackRolling_default [OF lowest_installed_eq] lowest_installed_eq s
  show ?thesis by simp
qed

subsection \<open>C8: InitLog with another extension\<close>

text \<open>
  Claim C8. For every path that is not empty and whose extension (\<^verbatim>\<open>path.Ext\<close>) is not
  \<^verbatim>\<open>.yml\<close>, \<open>InitLog\<close> returns the error whose message holds the path between
  \<^verbatim>\<open>log configure file name{\<close> and \<^verbatim>\<open>} suffix must be .yml\<close>, and has installed the default
  logger. As for C3, that zap builds the default configuration is a premise.
\<close>

theorem InitLog_extension_invalid:
  assumes "logConfFile \<noteq> []"
    and "Ext logConfFile \<noteq> ''.yml''"
    and "BuildError e (fst (zapLoggerConfig None st)) = None"
  shows "\<exists>st'. InitLog e logConfFile st =
                 Inr (Some (''log configure file name{'' @ logConfFile @ ''} suffix must be .yml''), st')
           \<and> InitLoggerWithRolling e None None st = Inr st'
           \<and> logger st' =
               Some (built_Logger e (fst (zapLoggerConfig None st)) (lumberjackRolling None))"
proof -
  from InitLoggerWithRolling_builds [OF assms(3), of None]
  obtain st' where st': "InitLoggerWithRolling e None None st = Inr st'" by blast
  have "InitLog e logConfFile st =
          Inr (Some (''log configure file name{'' @ logConfFile @ ''} suffix must be .yml''), st')"
    using assms(1,2) by (simp add: InitLog_def default_then_def st')
  with st' installed_after(1) [OF st'] show ?thesis
    by (intro exI [of _ st']) simp
qed

text \<open>
  The theorem at work on the path of the repository's test, \<^verbatim>\<open>./log.xml\<close>.
\<close>

theorem InitLog_extension_invalid_witness:
  "''./log.xml'' \<noteq> [] \<and> Ext ''./log.xml'' = ''.xml'' \<and> ''.xml'' \<noteq> ''.yml''
   \<and> BuildError example_env (fst (zapLoggerConfig None init_state)) = None
   \<and> InitLog example_env ''./log.xml'' init_state =
        Inr (Some ''log configure file name{./log.xml} suffix must be .yml'', default_installed)
   \<and> logger default_installed =
        Some (built_Logger example_env (fst (zapLoggerConfig None init_state))
               (lumberjackRolling None))"
proof -
  have x: "Ext ''./log.xml'' = ''.xml''" by (simp add: Ext_def)
  have b: "BuildError example_env (fst (zapLoggerConfig None init_state)) = None"
    by (simp add: zapLoggerConfig_None example_env_def example_BuildError_def)
  have "''./log.xml'' \<noteq> []" and "Ext ''./log.xml'' \<noteq> ''.yml''"
    by (simp_all add: x)
  from InitLog_extension_invalid [OF this b] default_installed_eq x b
  show ?thesis by auto
qed

subsection \<open>C9: SetLogger and GetLogger\<close>

text \<open>
  Claim C9. \<open>SetLogger x\<close> checks nothing and cannot fail: it stores \<open>x\<close> in the package
  variable and in getty's slot and changes nothing else, so \<open>GetLogger\<close> right after it
  returns \<open>x\<close>; \<open>GetLogger\<close> leaves the state as it is.
\<close>

theorem SetLogger_then_GetLogger:
  "SetLogger x st = st\<lparr>logger := x, getty_logger := x\<rparr>
   \<and> fst (GetLogger (SetLogger x st)) = x
   \<and> getty_logger (SetLogger x st) = x
   \<and> snd (GetLogger st) = st"
  by (simp add: SetLogger_def GetLogger_def getty_SetLogger_def)

subsection \<open>C10: what InitLog leaves installed\<close>

text \<open>
  Claim C10 says that after every call of \<open>InitLog\<close>, for any path, the active logger is a
  \<^verbatim>\<open>DubboLogger\<close> with the level-adjustment capability, so that \<open>SetLoggerLevel\<close> called
  next returns true. The source breaks this by the defect of C5. With the sugared logger
  installed by \<open>SetLogger\<close> (it lacks the capability), \<^verbatim>\<open>InitLog("./empty.yml")\<close> reads and
  decodes the empty file, \<^verbatim>\<open>Build\<close> refuses the zero configuration, and \<^verbatim>\<open>Sugar\<close> panics on the
  \<^verbatim>\<open>nil\<close> logger in the statement that would have assigned \<^verbatim>\<open>logger\<close>: the variable holds
  what it held before the call, and for that state \<open>SetLoggerLevel\<close> returns false. The
  same in a fresh process, where the variable stays \<^verbatim>\<open>nil\<close>. The environment is one in
  which \<^verbatim>\<open>Build\<close> refuses a configuration without a level.
\<close>

theorem InitLog_panic_keeps_logger:
  "\<not> (\<exists>cfg. Level cfg = None \<and> BuildError example_env cfg = None)
   \<and> bare_state = SetLogger (logger bare_state) default_installed
   \<and> \<not> OpsLogger (logger bare_state)
   \<and> InitLog example_env ''./empty.yml'' bare_state = Inl NilPointerDereference
   \<and> SetLoggerLevel example_env ''info'' bare_state = Inr (False, bare_state)
   \<and> logger init_state = None
   \<and> InitLog example_env ''./empty.yml'' init_state = Inl NilPointerDereference
   \<and> SetLoggerLevel example_env ''info'' init_state = Inr (False, init_state)"
proof -
  have h: "\<not> (\<exists>cfg. Level cfg = None \<and> BuildError example_env cfg = None)"
    by (simp add: example_env_def example_BuildError_def)
  have l: "logger bare_state =
             Some (SugaredLogger
               \<lparr>tee = zapCores example_env (fst (zapLoggerConfig None init_state))
                        (lumberjackRolling None),
                callerSkip = 1\<rparr>)"
    by (simp add: bare_state_def SetLogger_def getty_SetLogger_def)
  have b: "bare_state = SetLogger (logger bare_state) default_installed"
    by (simp add: l) (simp add: bare_state_def)
  have o: "\<not> OpsLogger (logger bare_state)" by (simp add: l)
  have s: "SetLoggerLevel example_env ''info'' bare_state = Inr (False, bare_state)"
    by (simp add: SetLoggerLevel_def l)
  have n: "logger init_state = None" by (simp add: init_state_def)
  have s0: "SetLoggerLevel example_env ''info'' init_state = Inr (False, init_state)"
    by (simp add: SetLoggerLevel_def n)
  from h b o s n s0 InitLog_empty_yml_panics [of bare_state]
    InitLog_empty_yml_panics [of init_state]
  show ?thesis by simp
qed

text \<open>
  What does hold: whenever \<open>InitLog\<close> returns, with an error or with \<^verbatim>\<open>nil\<close>, for any path,
  the active logger is a \<^verbatim>\<open>DubboLogger\<close> with an allocated dynamic level; it has the
  level-adjustment capability, and \<open>SetLoggerLevel\<close> called next returns true for every
  level name. \<open>InitLoggerWithRolling\<close> installs a logger with the capability whenever it
  returns, and \<open>SetLoggerLevel\<close> and \<open>GetLogger\<close> leave the active logger alone: a logger
  without the capability can come from \<open>SetLogger\<close> only. The one thing taken from zap is
  that \<^verbatim>\<open>Build\<close> refuses a configuration without a level, written as a premise.
\<close>

lemma InitLog_installs_OpsLogger:
  assumes "\<forall>cfg. Level cfg = None \<longrightarrow> BuildError e cfg \<noteq> None"
  shows "(InitLog e logConfFile st = Inr (err, st') \<longrightarrow>
            (\<exists>embedded a. logger st' = Some (DubboLogger embedded (Some a)))
            \<and> OpsLogger (logger st')
            \<and> (\<exists>st''. SetLoggerLevel e s st' = Inr (True, st'')))
         \<and> (InitLoggerWithRolling e conf rolling st = Inr st' \<longrightarrow> OpsLogger (logger st'))
         \<and> (SetLoggerLevel e s st = Inr (b, st') \<longrightarrow> logger st' = logger st)
         \<and> logger (snd (GetLogger st)) = logger st"
proof (intro conjI impI)
  assume "InitLog e logConfFile st = Inr (err, st')"
  then obtain c r st0 where i: "InitLoggerWithRolling e c r st0 = Inr st'"
    using InitLog_Inr_installed by blast
  note inst = installed_after [OF i]
  from assms have "Level (fst (zapLoggerConfig c st0)) = None \<longrightarrow>
      BuildError e (fst (zapLoggerConfig c st0)) \<noteq> None"
    by (rule spec)
  with inst(4) have "Level (fst (zapLoggerConfig c st0)) \<noteq> None" by auto
  then obtain a where a: "Level (fst (zapLoggerConfig c st0)) = Some a" by auto
  show "\<exists>embedded a. logger st' = Some (DubboLogger embedded (Some a))"
    by (simp add: inst(1) built_Logger_def a)
  show "OpsLogger (logger st')" by (simp add: inst(1))
  show "\<exists>st''. SetLoggerLevel e s st' = Inr (True, st'')"
    by (cases "Level_Set e s")
      (simp_all add: SetLoggerLevel_def inst(1) built_Logger_def a
        DubboLogger_SetLoggerLevel_def AtomicLevel_SetLevel_def)
next
  assume "InitLoggerWithRolling e conf rolling st = Inr st'"
  from installed_after(1) [OF this] show "OpsLogger (logger st')" by simp
next
  assume "SetLoggerLevel e s st = Inr (b, st')"
  then show "logger st' = logger st"
    by (cases "logger st" rule: OpsLogger.cases)
      (auto simp: SetLoggerLevel_def DubboLogger_SetLoggerLevel_def AtomicLevel_SetLevel_def
        split: sum.splits option.splits)
next
  show "logger (snd (GetLogger st)) = logger st" by (simp add: GetLogger_def)
qed

text \<open>
  This at work, along the repository's test: \<^verbatim>\<open>InitLog("./log.yml")\<close> returns no error
  in a fresh process, and \<^verbatim>\<open>SetLoggerLevel("info")\<close> returns true and sets the cell.
\<close>

lemma InitLog_installs_OpsLogger_example:
  "\<not> (\<exists>cfg. Level cfg = None \<and> BuildError example_env cfg = None)
   \<and> InitLog example_env ''./log.yml'' init_state = Inr (None, yml_installed)
   \<and> OpsLogger (logger yml_installed)
   \<and> SetLoggerLevel example_env ''info'' yml_installed =
        Inr (True, yml_installed\<lparr>cells := (cells yml_installed)(0 := InfoLevel)\<rparr>)"
proof -
  have h: "\<forall>cfg. Level cfg = None \<longrightarrow> BuildError example_env cfg \<noteq> None"
    by (simp add: example_env_def example_BuildError_def)
  from InitLog_installs_OpsLogger [OF h, of "''./log.yml''" init_state None yml_installed]
    yml_installed_eq
  have o: "OpsLogger (logger yml_installed)" by simp
  have s: "SetLoggerLevel example_env ''info'' yml_installed =
        Inr (True, yml_installed\<lparr>cells := (cells yml_installed)(0 := InfoLevel)\<rparr>)"
    by (simp add: SetLoggerLevel_def DubboLogger_SetLoggerLevel_def AtomicLevel_SetLevel_def
        yml_installed_def built_Logger_def yml_conf_def example_env_def example_Level_Set_def)
  from h have n: "\<not> (\<exists>cfg. Level cfg = None \<and> BuildError example_env cfg = None)"
    by blast
  from n o s yml_installed_eq show ?thesis by simp
qed

end
